theory Spec2Isabelle
  imports Main "HOL-Library.Word"
begin

section \<open>Optional<T> (Source/Core/Collections/Optional.h)\<close>

text \<open>
  The class has two fields, \<^verbatim>\<open>T Content\<close> and \<^verbatim>\<open>bool IsValid\<close>.
  The constructor \<^verbatim>\<open>Optional(T InContent)\<close> stores the value and sets the flag;
  the constructor \<^verbatim>\<open>Optional()\<close> only clears the flag, so \<^verbatim>\<open>Content\<close> holds
  whatever default initialisation of \<^verbatim>\<open>T\<close> leaves there. That value is a parameter
  of the model of the empty constructor: no result may depend on it.
\<close>

record 'a Optional =
  Content :: 'a
  IsValid :: bool

definition Optional_of :: "'a \<Rightarrow> 'a Optional" where
  "Optional_of InContent = \<lparr>Content = InContent, IsValid = True\<rparr>"

definition Optional_empty :: "'a \<Rightarrow> 'a Optional" where
  "Optional_empty leftover = \<lparr>Content = leftover, IsValid = False\<rparr>"

definition Or :: "'a Optional \<Rightarrow> 'a \<Rightarrow> 'a" where
  "Or this Other = (if IsValid this then Content this else Other)"

definition operator_bool :: "'a Optional \<Rightarrow> bool" where
  "operator_bool this = IsValid this"

definition Valid :: "'a Optional \<Rightarrow> bool" where
  "Valid this = IsValid this"

definition NullOpt :: "'a \<Rightarrow> 'a Optional" where
  "NullOpt leftover = Optional_empty leftover"

section \<open>The owned String (Cthulhu/Core/Collections/CthulhuString.h)\<close>

text \<open>
  The header declares the struct with its two private fields, \<^verbatim>\<open>char* Real\<close> and
  \<^verbatim>\<open>U32 Length{0}\<close>, and the signatures of its members. The record below has the
  same two fields: \<open>Real\<close> is the memory the pointer refers to (the empty list when no
  buffer is allocated) and \<open>Length\<close> the cached length, an unsigned 32-bit value.
  The bodies of the members are not part of the sources at hand; the members that
  System.cpp calls, and the ones the properties below are about, are modelled from the
  specification, each with a note saying so.
\<close>

type_synonym U32 = "32 word"
type_synonym U64 = "64 word"
type_synonym I64 = "64 word"

definition NUL :: char where
  "NUL = CHR 0x00"

record String =
  Real :: "char list"
  Length :: U32

text \<open>
  What a C function reads from a \<^verbatim>\<open>const char*\<close>: the bytes before the first
  sentinel. The list is the memory from the pointer on.
\<close>

definition c_string :: "char list \<Rightarrow> char list" where
  "c_string memory = takeWhile (\<lambda>C. C \<noteq> NUL) memory"

text \<open>
  Modelled from the spec: Invariant 1 of the data model. When the cached length is zero
  the buffer may be absent; a buffer that is present is an allocation of exactly
  \<open>Length + 1\<close> bytes with the sentinel at offset \<open>Length\<close> and no sentinel at an
  earlier offset.
\<close>

definition String_inv :: "String \<Rightarrow> bool" where
  "String_inv s =
     (if Real s = [] then Length s = 0
      else length (Real s) = unat (Length s) + 1
           \<and> Real s ! unat (Length s) = NUL
           \<and> list_all (\<lambda>C. C \<noteq> NUL) (take (unat (Length s)) (Real s)))"

text \<open>
  Modelled from the spec: the content of a String is the \<open>Length\<close> bytes of its buffer
  that precede the sentinel ("count of content bytes, excluding the terminating
  sentinel").
\<close>

definition content :: "String \<Rightarrow> char list" where
  "content s = take (unat (Length s)) (Real s)"

text \<open>
  Modelled from the spec: \<^verbatim>\<open>String()\<close>, whose body is not in the sources, constructs
  the empty String; with length zero no buffer is allocated.
\<close>

definition String_default :: String where
  "String_default = \<lparr>Real = [], Length = 0\<rparr>"

text \<open>
  Modelled from the spec: a String that owns a fresh buffer holding the given content
  bytes followed by the sentinel, with the cached length set to their count. Every
  operation that returns a new String builds it this way.
\<close>

definition String_from :: "char list \<Rightarrow> String" where
  "String_from bytes = \<lparr>Real = bytes @ [NUL], Length = word_of_nat (length bytes)\<rparr>"

text \<open>
  Modelled from the spec: \<^verbatim>\<open>String(const char* Content)\<close>, whose body is not in the
  sources, duplicates the bytes of a sentinel-terminated buffer into a buffer of its
  own; the length is found by scanning to the sentinel.
\<close>

definition String_cstr :: "char list \<Rightarrow> String" where
  "String_cstr Contents = String_from (c_string Contents)"

text \<open>
  Modelled from the spec: \<^verbatim>\<open>Len()\<close>, whose body is not in the sources, returns the
  cached length.
\<close>

definition Len :: "String \<Rightarrow> U32" where
  "Len s = Length s"

text \<open>
  Modelled from the spec: \<^verbatim>\<open>operator*\<close> and \<^verbatim>\<open>CStr()\<close>, whose bodies are not in the
  sources, hand out the pointer to the buffer.
\<close>

definition CStr :: "String \<Rightarrow> char list" where
  "CStr s = Real s"

text \<open>
  Modelled from the spec: \<^verbatim>\<open>Append\<close>, whose body is not in the sources. "Append
  operations allocate a new buffer sized to the new combined length plus one sentinel
  byte, copy the old content and the new content into it, write the sentinel, and
  release the previous buffer." The combined length is computed on \<^verbatim>\<open>U32\<close>, the type
  of the field. When the sum of the two lengths does not fit in 32 bits the buffer the
  code would allocate is too small for the bytes copied; the model is meant for the
  other case only, and the theorems about it say so in their hypotheses.
\<close>

definition Append :: "String \<Rightarrow> String \<Rightarrow> String" where
  "Append this Other =
     (let NewLength = Length this + Length Other;
          Buffer = take (unat (Length this)) (Real this)
                   @ take (unat (Length Other)) (Real Other) @ [NUL]
      in \<lparr>Real = Buffer, Length = NewLength\<rparr>)"

text \<open>
  Modelled from the spec: \<^verbatim>\<open>operator+=\<close>, whose body is not in the sources, is the
  appending of 4.1; the result is the new state of the receiver.
\<close>

definition operator_plus_assign :: "String \<Rightarrow> String \<Rightarrow> String" where
  "operator_plus_assign this Other = Append this Other"



subsection \<open>Positional formatting\<close>

text \<open>
  Modelled from the spec: \<^verbatim>\<open>Utils::IsNum\<close>, declared in the header without a body,
  recognises the decimal digits.
\<close>

definition IsNum :: "char \<Rightarrow> bool" where
  "IsNum C = (48 \<le> (of_char C :: nat) \<and> (of_char C :: nat) \<le> 57)"

text \<open>
  Modelled from the spec: the index written in a placeholder is "a non-negative
  integer"; it is read as a decimal number, the leftmost digit first.
\<close>

definition digit_value :: "char \<Rightarrow> nat" where
  "digit_value C = of_char C - 48"

fun decimal_value :: "nat \<Rightarrow> char list \<Rightarrow> nat" where
  "decimal_value acc [] = acc"
| "decimal_value acc (C # rest) = decimal_value (acc * 10 + digit_value C) rest"

text \<open>
  Modelled from the spec: \<^verbatim>\<open>ArrayFormat\<close>, whose body is not in the sources. The scan
  is a single pass from left to right over the bytes of the receiver. A placeholder
  is an opening brace, one or more decimal digits and a closing brace; it is replaced
  by the content of the argument at that position, and scanning goes on after the
  closing brace (the inserted bytes are not scanned again). Anything else is copied
  as it is, an unterminated brace included. The specification leaves open what
  happens to a placeholder whose index is out of range; here it is copied as it is.
\<close>

function ArrayFormat_scan :: "char list \<Rightarrow> String list \<Rightarrow> char list" where
  "ArrayFormat_scan [] Args = []"
| "ArrayFormat_scan (C # rest) Args =
     (let digits = takeWhile IsNum rest; after = dropWhile IsNum rest
      in if C = CHR ''{'' \<and> digits \<noteq> [] \<and> after \<noteq> [] \<and> hd after = CHR ''}''
            \<and> decimal_value 0 digits < length Args
         then content (Args ! decimal_value 0 digits) @ ArrayFormat_scan (tl after) Args
         else C # ArrayFormat_scan rest Args)"
  by pat_completeness auto
termination
  by (relation "measure (\<lambda>(text, Args). length text)")
     (auto simp: less_Suc_eq_le intro: le_trans [OF diff_le_self length_dropWhile_le])

definition ArrayFormat :: "String \<Rightarrow> String list \<Rightarrow> String" where
  "ArrayFormat this Args = String_from (ArrayFormat_scan (content this) Args)"

section \<open>The numeric lexer and formatter (namespace Utils of CthulhuString.h)\<close>

text \<open>
  The header declares \<^verbatim>\<open>ParseInt\<close>, \<^verbatim>\<open>ParseBits\<close>, \<^verbatim>\<open>ParseHex\<close>, \<^verbatim>\<open>ParseFloat\<close>,
  \<^verbatim>\<open>ParseBool\<close> and \<^verbatim>\<open>ToString\<close>; their bodies are not part of the sources at hand.
  Section 4.6 of the specification gives the grammar of each: "decimal digits with
  optional leading sign; 0/1 runs; hexadecimal digit set; decimal-point float grammar;
  the literal tokens for true/false", scanned from left to right, with an absent result
  "on any character outside the grammar, at any position, including empty input".
\<close>

text \<open>
  Modelled from the spec: the left-to-right scan of a run of digits in a given base,
  shared by the integer parsers. It stops with an absent result at the first byte that
  is not a digit of the base.
\<close>

fun scan_number :: "(char \<Rightarrow> nat option) \<Rightarrow> nat \<Rightarrow> nat \<Rightarrow> char list \<Rightarrow> nat option" where
  "scan_number digit base acc [] = Some acc"
| "scan_number digit base acc (C # rest) =
     (case digit C of
        None \<Rightarrow> None
      | Some d \<Rightarrow> scan_number digit base (acc * base + d) rest)"

text \<open>Modelled from the spec: the decimal digits and their values.\<close>

definition decimal_digit :: "char \<Rightarrow> nat option" where
  "decimal_digit C = (if IsNum C then Some (of_char C - 48) else None)"

text \<open>Modelled from the spec: the digits of a bit pattern, \<^verbatim>\<open>0\<close> and \<^verbatim>\<open>1\<close>.\<close>

definition bit_digit :: "char \<Rightarrow> nat option" where
  "bit_digit C = (if C = CHR ''0'' then Some 0 else if C = CHR ''1'' then Some 1 else None)"

text \<open>
  Modelled from the spec: the hexadecimal digit set. Section 8 of the specification
  lists \<^verbatim>\<open>12a\<close> among the malformed inputs that every parse function rejects, so
  the lower-case letters are not in the set: the digits are the decimal digits and
  the letters \<^verbatim>\<open>A\<close> to \<^verbatim>\<open>F\<close>.
\<close>

definition hex_digit :: "char \<Rightarrow> nat option" where
  "hex_digit C =
     (if IsNum C then Some (of_char C - 48)
      else if 65 \<le> (of_char C :: nat) \<and> (of_char C :: nat) \<le> 70 then Some (of_char C - 55)
      else None)"

text \<open>
  Modelled from the spec: \<^verbatim>\<open>ParseInt\<close> accepts one or more decimal digits with an
  optional leading sign, \<^verbatim>\<open>-\<close> or \<^verbatim>\<open>+\<close>, and nothing else; the result carries the
  decoded value as an \<^verbatim>\<open>I64\<close>.
\<close>

definition ParseInt :: "String \<Rightarrow> I64 option" where
  "ParseInt Text =
     (let bytes = content Text
      in if bytes = [] then None
         else if hd bytes = CHR ''-''
         then (if tl bytes = [] then None
               else map_option (\<lambda>m. - word_of_nat m) (scan_number decimal_digit 10 0 (tl bytes)))
         else if hd bytes = CHR ''+''
         then (if tl bytes = [] then None
               else map_option word_of_nat (scan_number decimal_digit 10 0 (tl bytes)))
         else map_option word_of_nat (scan_number decimal_digit 10 0 bytes))"

text \<open>
  Modelled from the spec: \<^verbatim>\<open>ParseBits\<close> accepts a non-empty run of \<^verbatim>\<open>0\<close> and \<^verbatim>\<open>1\<close>
  and decodes it as a binary number.
\<close>

definition ParseBits :: "String \<Rightarrow> I64 option" where
  "ParseBits Text =
     (let bytes = content Text
      in if bytes = [] then None
         else map_option word_of_nat (scan_number bit_digit 2 0 bytes))"

text \<open>
  Modelled from the spec: \<^verbatim>\<open>ParseHex\<close> accepts a non-empty run of bytes of the
  hexadecimal digit set and decodes it as a number in base 16.
\<close>

definition ParseHex :: "String \<Rightarrow> I64 option" where
  "ParseHex Text =
     (let bytes = content Text
      in if bytes = [] then None
         else map_option word_of_nat (scan_number hex_digit 16 0 bytes))"

text \<open>
  Modelled from the spec: \<^verbatim>\<open>ParseBool\<close> accepts the literal tokens \<^verbatim>\<open>true\<close> and
  \<^verbatim>\<open>false\<close>.
\<close>

definition ParseBool :: "String \<Rightarrow> bool option" where
  "ParseBool Text =
     (if content Text = ''true'' then Some True
      else if content Text = ''false'' then Some False
      else None)"

text \<open>
  Modelled from the spec: the unsigned part of the "decimal-point float grammar", one
  or more decimal digits, optionally followed by a point and one or more decimal
  digits. The value is kept exact, as a pair \<open>(m, k)\<close> that stands for \<open>m / 10 ^ k\<close>;
  the rounding to \<^verbatim>\<open>float\<close> is not modelled.
\<close>

definition float_digits :: "char list \<Rightarrow> (int \<times> nat) option" where
  "float_digits bytes =
     (let whole = takeWhile IsNum bytes; after = dropWhile IsNum bytes
      in if whole = [] then None
         else if after = [] then map_option (\<lambda>m. (int m, 0)) (scan_number decimal_digit 10 0 whole)
         else if hd after = CHR ''.'' \<and> tl after \<noteq> []
         then map_option (\<lambda>m. (int m, length (tl after)))
                (scan_number decimal_digit 10 0 (whole @ tl after))
         else None)"

text \<open>
  Modelled from the spec: \<^verbatim>\<open>ParseFloat\<close> accepts an optional leading sign followed by
  the unsigned part above.
\<close>

definition ParseFloat :: "String \<Rightarrow> (int \<times> nat) option" where
  "ParseFloat Text =
     (let bytes = content Text
      in if bytes = [] then None
         else if hd bytes = CHR ''-''
         then map_option (\<lambda>(m, k). (- m, k)) (float_digits (tl bytes))
         else if hd bytes = CHR ''+'' then float_digits (tl bytes)
         else float_digits bytes)"

text \<open>
  Modelled from the spec: the bytes each grammar of 4.6 is written with. A byte outside
  the set is a "character outside the grammar" of that function.
\<close>

definition in_ParseInt_grammar :: "char \<Rightarrow> bool" where
  "in_ParseInt_grammar C = (IsNum C \<or> C = CHR ''-'' \<or> C = CHR ''+'')"

definition in_ParseBits_grammar :: "char \<Rightarrow> bool" where
  "in_ParseBits_grammar C = (C = CHR ''0'' \<or> C = CHR ''1'')"

definition in_ParseHex_grammar :: "char \<Rightarrow> bool" where
  "in_ParseHex_grammar C =
     (IsNum C \<or> 65 \<le> (of_char C :: nat) \<and> (of_char C :: nat) \<le> 70)"

definition in_ParseFloat_grammar :: "char \<Rightarrow> bool" where
  "in_ParseFloat_grammar C = (IsNum C \<or> C = CHR ''-'' \<or> C = CHR ''+'' \<or> C = CHR ''.'')"

definition in_ParseBool_grammar :: "char \<Rightarrow> bool" where
  "in_ParseBool_grammar C = (C \<in> set ''truefalse'')"

text \<open>
  Modelled from the spec: \<^verbatim>\<open>ToString(I64 Num)\<close> "renders the reverse direction", the
  decimal digits of the magnitude, most significant first and without leading zeros,
  after a \<^verbatim>\<open>-\<close> when the number is negative. The digits are produced from the least
  significant one and put in front of those already there.
\<close>

definition digit_char :: "nat \<Rightarrow> char" where
  "digit_char d = char_of (48 + d)"

function render_decimal :: "nat \<Rightarrow> char list \<Rightarrow> char list" where
  "render_decimal n acc =
     (if n < 10 then digit_char n # acc
      else render_decimal (n div 10) (digit_char (n mod 10) # acc))"
  by pat_completeness auto
termination
  by (relation "measure (\<lambda>(n, acc). n)") auto

declare render_decimal.simps [simp del]

definition ToString :: "I64 \<Rightarrow> String" where
  "ToString Num =
     String_from
       (if sint Num < 0 then CHR ''-'' # render_decimal (nat (- sint Num)) []
        else render_decimal (nat (sint Num)) [])"

section \<open>The host system seen by Cthulhu/Meta/System.cpp\<close>

text \<open>
  The functions of System.cpp ask the operating system through \<^verbatim>\<open>sysconf\<close>,
  \<^verbatim>\<open>system\<close>, \<^verbatim>\<open>popen\<close> and \<^verbatim>\<open>getcwd\<close>. The answers of the operating system are
  the fields of a record:
  \<^item> the two \<^verbatim>\<open>long\<close> values \<^verbatim>\<open>sysconf\<close> reports for the number of physical pages
    and for the page size;
  \<^item> the value \<^verbatim>\<open>system\<close> returns for a command line (the wait status of the shell);
  \<^item> the bytes a command started by \<^verbatim>\<open>popen\<close> writes to its standard output, or
    \<open>None\<close> when \<^verbatim>\<open>popen\<close> returns a null stream;
  \<^item> the absolute path of the working directory, or \<open>None\<close> when it cannot be read.
\<close>

record host =
  sysconf_PHYS_PAGES :: int
  sysconf_PAGE_SIZE :: int
  system_status :: "string \<Rightarrow> int"
  popen_stdout :: "string \<Rightarrow> string option"
  working_directory :: "string option"

subsection \<open>TotalRam\<close>

text \<open>
  The branch compiled when \<^verbatim>\<open>OS_WINDOWS\<close> is not defined: both results of
  \<^verbatim>\<open>sysconf\<close> are stored in \<^verbatim>\<open>const U32\<close> locals, the product is taken on
  \<^verbatim>\<open>U32\<close> operands and only the result of the multiplication is widened to the
  \<^verbatim>\<open>U64\<close> that is returned.
\<close>

definition TotalRam :: "host \<Rightarrow> U64" where
  "TotalRam h =
     (let Pages = (word_of_int (sysconf_PHYS_PAGES h) :: U32);
          PageSize = (word_of_int (sysconf_PAGE_SIZE h) :: U32)
      in ucast (Pages * PageSize))"

subsection \<open>FunctionExists\<close>

text \<open>
  The command line is built by \<^verbatim>\<open>ArrayFormat\<close> from the template and the one-element
  array holding the name, and handed to \<^verbatim>\<open>system\<close> as a C string. The \<^verbatim>\<open>int\<close> that
  \<^verbatim>\<open>system\<close> returns is converted to the \<^verbatim>\<open>bool\<close> result: zero becomes false, every
  other value true.
\<close>

definition FunctionExists :: "host \<Rightarrow> String \<Rightarrow> bool" where
  "FunctionExists h Name =
     (let Temp = [String_cstr (CStr Name)]
      in system_status h
           (c_string (CStr (ArrayFormat (String_cstr ''which {0} > /dev/null 2>&1'') Temp)))
         \<noteq> 0)"

subsection \<open>Exec\<close>

text \<open>
  \<^verbatim>\<open>fgets(C, 64, Temp)\<close> stores at most 63 bytes of the stream, stops after a newline
  and then writes the sentinel; it returns a null pointer when the stream is at its
  end and nothing was read. \<open>read_line\<close> takes the bytes of one call off the stream,
  \<open>fgets\<close> returns the buffer it filled and the rest of the stream.
\<close>

fun read_line :: "nat \<Rightarrow> char list \<Rightarrow> char list \<times> char list" where
  "read_line 0 stream = ([], stream)"
| "read_line (Suc room) [] = ([], [])"
| "read_line (Suc room) (C # stream) =
     (if C = CHR 0x0A then ([C], stream)
      else (case read_line room stream of (line, rest) \<Rightarrow> (C # line, rest)))"

definition fgets :: "nat \<Rightarrow> char list \<Rightarrow> (char list \<times> char list) option" where
  "fgets room stream =
     (if stream = [] then None
      else (case read_line (room - 1) stream of (line, rest) \<Rightarrow> Some (line @ [NUL], rest)))"

lemma read_line_split: "read_line room stream = (line, rest) \<Longrightarrow> line @ rest = stream"
  by (induction room stream arbitrary: line rest rule: read_line.induct)
     (auto split: if_splits prod.splits)

lemma fgets_progress:
  "fgets 64 stream = Some (buffer, rest) \<Longrightarrow> length rest < length stream"
  by (cases stream)
     (auto simp: fgets_def numeral_eq_Suc split: if_splits prod.splits dest!: read_line_split)

text \<open>
  The loop of \<^verbatim>\<open>Exec\<close>: while \<^verbatim>\<open>fgets\<close> returns a buffer, \<^verbatim>\<open>Ret += C\<close> converts
  the buffer to a String (the constructor from \<^verbatim>\<open>const char*\<close>) and appends it.
\<close>

function Exec_loop :: "char list \<Rightarrow> String \<Rightarrow> String" where
  "Exec_loop stream Ret =
     (case fgets 64 stream of
        None \<Rightarrow> Ret
      | Some (C, rest) \<Rightarrow> Exec_loop rest (operator_plus_assign Ret (String_cstr C)))"
  by pat_completeness auto
termination
  by (relation "measure (\<lambda>(stream, Ret). length stream)") (auto dest: fgets_progress)

text \<open>
  \<^verbatim>\<open>Exec\<close> does not test the stream \<^verbatim>\<open>popen\<close> returns. A null stream, on which the
  behaviour of \<^verbatim>\<open>fgets\<close> is not defined, is the result \<open>None\<close> of the model.
\<close>

definition Exec :: "host \<Rightarrow> String \<Rightarrow> String option" where
  "Exec h Command =
     (case popen_stdout h (c_string (CStr Command)) of
        None \<Rightarrow> None
      | Some output \<Rightarrow> Some (Exec_loop output String_default))"

subsection \<open>CurrentDirectory\<close>

text \<open>
  \<^verbatim>\<open>getcwd(Path, size)\<close> fails when the working directory cannot be read, and also
  when the path with its sentinel needs more than \<open>size\<close> bytes; otherwise it writes
  the path and the sentinel into the buffer and returns the buffer.
\<close>

definition getcwd :: "host \<Rightarrow> nat \<Rightarrow> char list option" where
  "getcwd h room =
     (case working_directory h of
        None \<Rightarrow> None
      | Some path \<Rightarrow> if length path + 1 \<le> room then Some (path @ [NUL]) else None)"

text \<open>
  Modelled from the spec: the template \<^verbatim>\<open>Option<T>\<close> with \<^verbatim>\<open>Some(x)\<close> and
  \<^verbatim>\<open>None<T>()\<close> is only forward-declared in the sources. It is the optional value of the
  specification, present with a value or absent, and is modelled by the option type
  of HOL, whose constructors have the same names.
\<close>

definition CurrentDirectory :: "host \<Rightarrow> String option" where
  "CurrentDirectory h =
     (case getcwd h 1024 of
        Some Path \<Rightarrow> Some (String_cstr Path)
      | None \<Rightarrow> None)"

subsection \<open>Example hosts\<close>

definition which_line :: "string \<Rightarrow> string" where
  "which_line name = ''which '' @ name @ '' > /dev/null 2>&1''"

text \<open>
  A host on which exactly the given command names are found on the search path:
  the shell run by \<^verbatim>\<open>system\<close> exits with the status of \<^verbatim>\<open>which\<close>, which is 0 when
  the name is found and 1 otherwise (the wait status 256). The machine has 16 GiB of
  memory in pages of 4096 bytes, and its working directory is \<^verbatim>\<open>/tmp\<close>.
\<close>

definition host_with_commands :: "string list \<Rightarrow> host" where
  "host_with_commands names =
     \<lparr>sysconf_PHYS_PAGES = 4194304, sysconf_PAGE_SIZE = 4096,
      system_status =
        (\<lambda>line. if list_ex (\<lambda>name. line = which_line name) names then 0 else 256),
      popen_stdout = (\<lambda>line. Some []),
      working_directory = Some ''/tmp''\<rparr>"

definition host_16GiB :: host where
  "host_16GiB = host_with_commands [''ls'']"

text \<open>A host on which every command prints the line \<^verbatim>\<open>hi\<close>.\<close>

definition host_text_output :: host where
  "host_text_output =
     (host_with_commands [''echo''])\<lparr>popen_stdout := (\<lambda>line. Some [CHR ''h'', CHR ''i'', CHR 0x0A])\<rparr>"

text \<open>A host on which every command writes the three bytes \<^verbatim>\<open>a\<close>, zero, \<^verbatim>\<open>b\<close>.\<close>

definition host_binary_output :: host where
  "host_binary_output =
     (host_with_commands [''cat''])\<lparr>popen_stdout := (\<lambda>line. Some [CHR ''a'', NUL, CHR ''b''])\<rparr>"

text \<open>A host whose working directory has a path of 1024 bytes.\<close>

definition host_deep_directory :: host where
  "host_deep_directory =
     (host_with_commands [])\<lparr>working_directory := Some (CHR ''/'' # replicate 1023 (CHR ''d''))\<rparr>"

section \<open>Properties of Optional\<close>

lemma Or_Optional_of: "Or (Optional_of v) d = v"
  by (simp add: Or_def Optional_of_def)

lemma Or_Optional_empty: "Or (Optional_empty leftover) d = d"
  by (simp add: Or_def Optional_empty_def)

text \<open>
  Claim C4. For every value \<open>v\<close> and every default \<open>d\<close>, \<^verbatim>\<open>Optional(v).Or(d)\<close> is
  \<open>v\<close>; an absent Optional, built by \<^verbatim>\<open>Optional()\<close> or by \<^verbatim>\<open>NullOpt<T>()\<close>, has
  \<^verbatim>\<open>Or(d)\<close> return \<open>d\<close>, whatever its unset content is.
\<close>

theorem Optional_Or_present_absent:
  "Or (Optional_of v) d = v
   \<and> Or (Optional_empty leftover) d = d
   \<and> Or (NullOpt leftover) d = d"
  by (simp add: Or_Optional_of Or_Optional_empty NullOpt_def)

text \<open>
  Claim C5. An Optional built from a value is valid and converts to true; an
  Optional built absent (\<^verbatim>\<open>Optional()\<close> or \<^verbatim>\<open>NullOpt<T>()\<close>) is not valid and converts
  to false; on every Optional \<^verbatim>\<open>Valid()\<close> and the conversion to bool agree.
\<close>

theorem Optional_Valid_bool_agree:
  "Valid (Optional_of v) = True
   \<and> operator_bool (Optional_of v) = True
   \<and> Valid (Optional_empty leftover) = False
   \<and> operator_bool (Optional_empty leftover) = False
   \<and> Valid (NullOpt leftover) = False
   \<and> operator_bool (NullOpt leftover) = False
   \<and> Valid x = operator_bool x"
  by (simp add: Valid_def operator_bool_def Optional_of_def Optional_empty_def NullOpt_def)

section \<open>Properties of the system queries\<close>

lemma TotalRam_mod: "uint (TotalRam h) = (sysconf_PHYS_PAGES h * sysconf_PAGE_SIZE h) mod 2 ^ 32"
proof -
  have "uint (TotalRam h)
      = uint (word_of_int (sysconf_PHYS_PAGES h) * word_of_int (sysconf_PAGE_SIZE h) :: U32)"
    by (simp add: TotalRam_def Let_def uint_up_ucast is_up)
  also have "\<dots> = (sysconf_PHYS_PAGES h * sysconf_PAGE_SIZE h) mod 2 ^ 32"
    by (simp add: uint_word_ariths uint_word_of_int mod_mult_eq)
  finally show ?thesis .
qed

text \<open>
  Claim C2, at a failing input. With 4194304 physical pages of 4096 bytes the
  machine has 17179869184 bytes of memory, and \<open>TotalRam\<close> returns 0: the
  product is reduced modulo \<open>2 ^ 32\<close> before it is widened.
\<close>

theorem TotalRam_16GiB_is_zero:
  "TotalRam host_16GiB = 0
   \<and> sysconf_PHYS_PAGES host_16GiB * sysconf_PAGE_SIZE host_16GiB = 17179869184"
  by (simp add: TotalRam_def host_16GiB_def host_with_commands_def)

section \<open>Properties of the owned String\<close>

lemma length_content: "String_inv s \<Longrightarrow> length (content s) = unat (Length s)"
  by (auto simp: String_inv_def content_def split: if_splits)

lemma content_no_NUL: "String_inv s \<Longrightarrow> NUL \<notin> set (content s)"
  by (auto simp: String_inv_def content_def list_all_iff split: if_splits)

lemma c_string_sentinel: "NUL \<notin> set bytes \<Longrightarrow> c_string (bytes @ NUL # rest) = bytes"
  by (induction bytes) (auto simp: c_string_def)

lemma c_string_no_NUL: "NUL \<notin> set bytes \<Longrightarrow> c_string bytes = bytes"
  by (auto simp: c_string_def)

lemma NUL_notin_c_string: "NUL \<notin> set (c_string memory)"
  by (auto simp: c_string_def dest: set_takeWhileD)

lemma String_from_inv:
  assumes "NUL \<notin> set bytes" and "length bytes < 2 ^ 32"
  shows "String_inv (String_from bytes)"
    and "content (String_from bytes) = bytes"
    and "unat (Length (String_from bytes)) = length bytes"
proof -
  show u: "unat (Length (String_from bytes)) = length bytes"
    using assms(2) by (simp add: String_from_def unat_of_nat)
  show "content (String_from bytes) = bytes"
    using u by (simp add: content_def) (simp add: String_from_def)
  show "String_inv (String_from bytes)"
    using u assms(1)
    by (simp add: String_inv_def) (auto simp: String_from_def nth_append list_all_iff)
qed

lemma String_cstr_inv:
  assumes "length (c_string memory) < 2 ^ 32"
  shows "String_inv (String_cstr memory)"
    and "content (String_cstr memory) = c_string memory"
    and "unat (Length (String_cstr memory)) = length (c_string memory)"
  using String_from_inv [OF NUL_notin_c_string assms] by (simp_all add: String_cstr_def)

lemma CStr_content: "String_inv s \<Longrightarrow> c_string (CStr s) = content s"
proof (cases "Real s = []")
  case True
  then show ?thesis by (simp add: CStr_def content_def c_string_def)
next
  case False
  assume inv: "String_inv s"
  with False have len: "length (Real s) = unat (Length s) + 1"
    and last: "Real s ! unat (Length s) = NUL"
    by (simp_all add: String_inv_def)
  have "Real s = take (unat (Length s)) (Real s) @ drop (unat (Length s)) (Real s)"
    by simp
  moreover have "drop (unat (Length s)) (Real s) = [NUL]"
    using len last Cons_nth_drop_Suc [of "unat (Length s)" "Real s"] by simp
  ultimately have "Real s = content s @ [NUL]"
    by (simp add: content_def)
  then show ?thesis
    using c_string_sentinel [OF content_no_NUL [OF inv], of "[]"] by (simp add: CStr_def)
qed

lemma Append_inv:
  assumes "String_inv a" and "String_inv b" and "unat (Length a) + unat (Length b) < 2 ^ 32"
  shows "String_inv (Append a b)"
    and "content (Append a b) = content a @ content b"
    and "unat (Length (Append a b)) = unat (Length a) + unat (Length b)"
    and "Append a b = String_from (content a @ content b)"
proof -
  have u: "unat (Length a + Length b) = unat (Length a) + unat (Length b)"
    using assms(3) by (simp add: unat_add_lem [THEN iffD1])
  have la: "length (content a) = unat (Length a)" and lb: "length (content b) = unat (Length b)"
    using assms by (simp_all add: length_content)
  show "unat (Length (Append a b)) = unat (Length a) + unat (Length b)"
    by (simp add: Append_def Let_def u)
  show "content (Append a b) = content a @ content b"
    using la lb by (simp add: content_def Append_def Let_def u)
  show "String_inv (Append a b)"
    using la lb content_no_NUL [OF assms(1)] content_no_NUL [OF assms(2)]
    by (auto simp: String_inv_def Append_def Let_def u nth_append list_all_iff content_def)
  show "Append a b = String_from (content a @ content b)"
    using la lb by (simp add: Append_def Let_def String_from_def content_def)
qed








section \<open>Properties of Exec and CurrentDirectory\<close>

lemma Exec_loop_content:
  "String_inv Ret \<Longrightarrow> NUL \<notin> set stream \<Longrightarrow> unat (Length Ret) + length stream < 2 ^ 32 \<Longrightarrow>
   String_inv (Exec_loop stream Ret) \<and> content (Exec_loop stream Ret) = content Ret @ stream"
proof (induction stream Ret rule: Exec_loop.induct)
  case (1 stream Ret)
  show ?case
  proof (cases "fgets 64 stream")
    case None
    then have "stream = []" by (auto simp: fgets_def split: if_splits prod.splits)
    with None "1.prems" show ?thesis by simp
  next
    case (Some a)
    obtain C rest where a: "a = (C, rest)" by (cases a)
    from Some a obtain line where C: "C = line @ [NUL]" and split: "line @ rest = stream"
      by (auto simp: fgets_def split: if_splits prod.splits dest: read_line_split)
    from split "1.prems"(2) have nl: "NUL \<notin> set line" and nr: "NUL \<notin> set rest" by auto
    have cs: "c_string C = line" using nl by (simp add: C c_string_sentinel)
    from split "1.prems"(3) have len: "length line < 2 ^ 32" by auto
    have invC: "String_inv (String_cstr C)" and contC: "content (String_cstr C) = line"
      and lenC: "unat (Length (String_cstr C)) = length line"
      using String_cstr_inv [of C] len cs by simp_all
    have room: "unat (Length Ret) + unat (Length (String_cstr C)) < 2 ^ 32"
      using lenC split "1.prems"(3) by auto
    note app = Append_inv [OF "1.prems"(1) invC room]
    have room': "unat (Length (operator_plus_assign Ret (String_cstr C))) + length rest < 2 ^ 32"
      using app(3) lenC split "1.prems"(3) by (auto simp: operator_plus_assign_def)
    from "1.IH" [OF Some a [symmetric] _ nr room'] app(1)
    show ?thesis using Some a app(2) contC split by (simp add: operator_plus_assign_def)
  qed
qed

text \<open>
  Claim C6, as stated, fails: it promises every byte of the standard output. On a
  host where the command writes \<^verbatim>\<open>a\<close>, a zero byte and \<^verbatim>\<open>b\<close>, the String that
  \<^verbatim>\<open>Exec\<close> returns holds \<^verbatim>\<open>a\<close> only, since each buffer filled by \<^verbatim>\<open>fgets\<close> is
  appended as a C string.
\<close>

theorem Exec_cuts_output_at_NUL:
  "popen_stdout host_binary_output (c_string (CStr (String_cstr ''cat blob'')))
     = Some [CHR ''a'', NUL, CHR ''b'']
   \<and> map_option content (Exec host_binary_output (String_cstr ''cat blob'')) = Some ''a''"
  by code_simp

text \<open>
  Claim C6, amended. For every executed command whose standard output contains no
  zero byte and has fewer than \<open>2 ^ 32\<close> bytes, \<^verbatim>\<open>Exec\<close> returns a String whose
  content is that output, all bytes in the order read, and whose length is the number
  of bytes; a command without output yields the empty String (the case where the
  output is the empty list).
\<close>

theorem Exec_returns_output:
  assumes "popen_stdout h (c_string (CStr Command)) = Some output"
    and "NUL \<notin> set output" and "length output < 2 ^ 32"
  shows "map_option content (Exec h Command) = Some output
       \<and> map_option (\<lambda>Ret. unat (Len Ret)) (Exec h Command) = Some (length output)"
proof -
  have inv: "String_inv String_default"
    by (simp add: String_inv_def String_default_def)
  have room: "unat (Length String_default) + length output < 2 ^ 32"
    using assms(3) by (simp add: String_default_def)
  from Exec_loop_content [OF inv assms(2) room]
  have loop: "String_inv (Exec_loop output String_default)"
    and bytes: "content (Exec_loop output String_default) = output"
    by (simp_all add: content_def String_default_def)
  from length_content [OF loop] bytes
  have "unat (Len (Exec_loop output String_default)) = length output"
    by (simp add: Len_def)
  with bytes show ?thesis
    by (simp add: Exec_def assms(1))
qed

theorem Exec_returns_output_witness:
  "map_option content (Exec host_text_output (String_cstr ''echo hi''))
     = Some [CHR ''h'', CHR ''i'', CHR 0x0A]
   \<and> map_option (\<lambda>Ret. unat (Len Ret)) (Exec host_text_output (String_cstr ''echo hi''))
     = Some 3"
proof -
  have popen: "popen_stdout host_text_output (c_string (CStr (String_cstr ''echo hi'')))
      = Some [CHR ''h'', CHR ''i'', CHR 0x0A]"
    by (simp add: host_text_output_def)
  have clean: "NUL \<notin> set [CHR ''h'', CHR ''i'', CHR 0x0A]"
    by (simp add: NUL_def)
  have short: "length [CHR ''h'', CHR ''i'', CHR 0x0A] < 2 ^ 32"
    by simp
  have three: "length [CHR ''h'', CHR ''i'', CHR 0x0A] = 3"
    by simp
  from Exec_returns_output [OF popen clean short, unfolded three] show ?thesis .
qed

text \<open>
  Claim C3, as stated, fails: on a host whose working directory is readable and has a
  path of 1024 bytes, \<^verbatim>\<open>CurrentDirectory\<close> returns an absent value although reading
  the working directory does not fail.
\<close>

theorem CurrentDirectory_absent_for_readable_directory:
  "working_directory host_deep_directory = Some (CHR ''/'' # replicate 1023 (CHR ''d''))
   \<and> CurrentDirectory host_deep_directory = None"
  by (simp add: host_deep_directory_def CurrentDirectory_def getcwd_def)

text \<open>
  Claim C3, amended. \<^verbatim>\<open>CurrentDirectory\<close> returns an absent value exactly when the
  working directory cannot be read or its path, with the terminator, does not fit in
  the buffer of 1024 bytes; otherwise the result is present and its content is the
  path of the working directory (a path holds no zero byte). The result type has no
  other way to report a failure.
\<close>

theorem CurrentDirectory_absent_iff_unreadable_or_long:
  "(CurrentDirectory h = None)
     = (case working_directory h of None \<Rightarrow> True | Some p \<Rightarrow> 1024 < length p + 1)
   \<and> (working_directory h = Some path \<and> length path + 1 \<le> 1024 \<and> NUL \<notin> set path
        \<longrightarrow> map_option content (CurrentDirectory h) = Some path)"
proof (intro conjI impI)
  show "(CurrentDirectory h = None)
     = (case working_directory h of None \<Rightarrow> True | Some p \<Rightarrow> 1024 < length p + 1)"
    by (auto simp: CurrentDirectory_def getcwd_def split: option.splits)
next
  assume a: "working_directory h = Some path \<and> length path + 1 \<le> 1024 \<and> NUL \<notin> set path"
  then have buffer: "getcwd h 1024 = Some (path @ [NUL])"
    by (simp add: getcwd_def)
  have scan: "c_string (path @ [NUL]) = path"
    using a by (simp add: c_string_sentinel)
  have "content (String_cstr (path @ [NUL])) = path"
    using String_cstr_inv(2) [of "path @ [NUL]"] a by (simp add: scan)
  then show "map_option content (CurrentDirectory h) = Some path"
    by (simp add: CurrentDirectory_def buffer)
qed

theorem CurrentDirectory_absent_iff_unreadable_or_long_witness:
  "CurrentDirectory (host_with_commands []) \<noteq> None
   \<and> map_option content (CurrentDirectory (host_with_commands [])) = Some ''/tmp''"
proof -
  have dir: "working_directory (host_with_commands []) = Some ''/tmp''"
    by (simp add: host_with_commands_def)
  have pre: "working_directory (host_with_commands []) = Some ''/tmp''
      \<and> length ''/tmp'' + 1 \<le> 1024 \<and> NUL \<notin> set ''/tmp''"
    using dir by (simp add: NUL_def)
  note inst = CurrentDirectory_absent_iff_unreadable_or_long [of "host_with_commands []" "''/tmp''"]
  from inst have "(CurrentDirectory (host_with_commands []) = None)
      = (case working_directory (host_with_commands []) of None \<Rightarrow> True
         | Some p \<Rightarrow> 1024 < length p + 1)"
    by (rule conjunct1)
  then have present: "CurrentDirectory (host_with_commands []) \<noteq> None"
    by (simp add: dir)
  from inst pre have "map_option content (CurrentDirectory (host_with_commands [])) = Some ''/tmp''"
    by blast
  with present show ?thesis by (intro conjI)
qed

text \<open>
  Claim C10. The buffer of \<^verbatim>\<open>CurrentDirectory\<close> has 1024 bytes. Whenever the path of
  a readable working directory, with its terminator, needs more than 1024 bytes, the
  result is absent, and it is the same result as on the host that differs only in
  that its working directory cannot be read.
\<close>

theorem CurrentDirectory_absent_on_long_path:
  assumes "working_directory h = Some path" and "1024 < length path + 1"
  shows "CurrentDirectory h = None
       \<and> CurrentDirectory (h\<lparr>working_directory := None\<rparr>) = CurrentDirectory h"
  using assms by (simp add: CurrentDirectory_def getcwd_def)

theorem CurrentDirectory_absent_on_long_path_witness:
  "working_directory host_deep_directory = Some (CHR ''/'' # replicate 1023 (CHR ''d''))
   \<and> length (CHR ''/'' # replicate 1023 (CHR ''d'')) = 1024
   \<and> CurrentDirectory host_deep_directory = None
   \<and> CurrentDirectory (host_deep_directory\<lparr>working_directory := None\<rparr>) = None"
proof -
  have dir: "working_directory host_deep_directory = Some (CHR ''/'' # replicate 1023 (CHR ''d''))"
    by (simp add: host_deep_directory_def)
  have long: "1024 < length (CHR ''/'' # replicate 1023 (CHR ''d'')) + 1"
    by simp
  from CurrentDirectory_absent_on_long_path [OF dir long] dir show ?thesis
    by simp
qed

section \<open>Properties of FunctionExists\<close>

lemma ArrayFormat_scan_which:
  "ArrayFormat_scan ''which {0} > /dev/null 2>&1'' [X] = which_line (content X)"
  by (simp add: Let_def IsNum_def which_line_def digit_value_def)

lemma which_line_inj: "(which_line a = which_line b) = (a = b)"
  by (simp add: which_line_def)

lemma NUL_notin_which_line: "NUL \<notin> set name \<Longrightarrow> NUL \<notin> set (which_line name)"
  by (auto simp: which_line_def NUL_def)

lemma content_template:
  "content (String_cstr ''which {0} > /dev/null 2>&1'') = ''which {0} > /dev/null 2>&1''"
proof -
  have "c_string ''which {0} > /dev/null 2>&1'' = ''which {0} > /dev/null 2>&1''"
    by (rule c_string_no_NUL) (simp add: NUL_def)
  then show ?thesis
    using String_cstr_inv(2) [of "''which {0} > /dev/null 2>&1''"] by simp
qed

text \<open>
  The value \<^verbatim>\<open>FunctionExists\<close> returns is the truth value of the status of the
  command line: true when the shell reports a failure.
\<close>

lemma FunctionExists_command_line:
  assumes "String_inv Name"
  shows "FunctionExists h Name = (system_status h (which_line (content Name)) \<noteq> 0)"
proof -
  have lt: "length (content Name) < 2 ^ 32"
    using length_content [OF assms] unsigned_less [of "Length Name", where ?'a = nat] by simp
  have arg: "content (String_cstr (CStr Name)) = content Name"
    using String_cstr_inv(2) [of "CStr Name"] lt by (simp add: CStr_content [OF assms])
  have nn: "NUL \<notin> set (which_line (content Name))"
    by (rule NUL_notin_which_line [OF content_no_NUL [OF assms]])
  have line: "c_string (CStr (String_from (which_line (content Name)))) = which_line (content Name)"
    using c_string_sentinel [OF nn, of "[]"] by (simp add: CStr_def String_from_def)
  have fmt: "ArrayFormat (String_cstr ''which {0} > /dev/null 2>&1'') [String_cstr (CStr Name)]
      = String_from (which_line (content Name))"
    by (simp only: ArrayFormat_def content_template ArrayFormat_scan_which arg)
  show ?thesis
    unfolding FunctionExists_def Let_def by (simp only: fmt line)
qed

text \<open>
  On a host where \<^verbatim>\<open>which\<close> exits with 0 exactly for the names on the search path,
  \<^verbatim>\<open>FunctionExists\<close> is true exactly for the names that are not found.
\<close>

lemma FunctionExists_negated:
  assumes "String_inv Name"
  shows "FunctionExists (host_with_commands names) Name = (content Name \<notin> set names)"
  by (simp add: FunctionExists_command_line [OF assms] host_with_commands_def
      which_line_inj list_ex_iff)

text \<open>
  Claim C1, at a failing input. On a host where \<^verbatim>\<open>ls\<close> is the one command on the
  search path, \<^verbatim>\<open>FunctionExists("ls")\<close> is false, and \<^verbatim>\<open>FunctionExists\<close> of a name
  that is not a command is true: the result is the opposite of what the claim states.
\<close>

theorem FunctionExists_false_for_existing_command:
  "FunctionExists (host_with_commands [''ls'']) (String_cstr ''ls'') = False
   \<and> FunctionExists (host_with_commands [''ls'']) (String_cstr ''frobnicate'') = True"
  by code_simp

section \<open>Properties of the numeric lexer and formatter\<close>

lemma scan_number_append:
  "scan_number digit base acc (xs @ ys) =
     (case scan_number digit base acc xs of
        None \<Rightarrow> None
      | Some v \<Rightarrow> scan_number digit base v ys)"
  by (induction xs arbitrary: acc) (auto split: option.splits)

lemma scan_number_reject:
  "C \<in> set bytes \<Longrightarrow> digit C = None \<Longrightarrow> scan_number digit base acc bytes = None"
  by (induction bytes arbitrary: acc) (auto split: option.splits)

lemma decimal_digit_digit_char: "d < 10 \<Longrightarrow> decimal_digit (digit_char d) = Some d"
  by (simp add: decimal_digit_def digit_char_def IsNum_def)

lemma render_decimal_acc: "render_decimal n acc = render_decimal n [] @ acc"
proof (induction n arbitrary: acc rule: less_induct)
  case (less n)
  show ?case
  proof (cases "n < 10")
    case True
    then show ?thesis by (simp add: render_decimal.simps [of n])
  next
    case False
    then have lt: "n div 10 < n" by simp
    have "render_decimal n acc = render_decimal (n div 10) (digit_char (n mod 10) # acc)"
      using False by (simp add: render_decimal.simps [of n])
    also have "\<dots> = render_decimal (n div 10) [] @ digit_char (n mod 10) # acc"
      by (rule less.IH [OF lt])
    also have "\<dots> = (render_decimal (n div 10) [] @ [digit_char (n mod 10)]) @ acc"
      by simp
    also have "render_decimal (n div 10) [] @ [digit_char (n mod 10)]
        = render_decimal (n div 10) [digit_char (n mod 10)]"
      by (rule less.IH [OF lt, symmetric])
    also have "render_decimal (n div 10) [digit_char (n mod 10)] = render_decimal n []"
      using False by (simp add: render_decimal.simps [of n])
    finally show ?thesis .
  qed
qed

lemma render_decimal_unfold:
  "render_decimal n [] =
     (if n < 10 then [digit_char n] else render_decimal (n div 10) [] @ [digit_char (n mod 10)])"
  using render_decimal_acc [of "n div 10" "[digit_char (n mod 10)]"]
  by (simp add: render_decimal.simps [of n])

lemma scan_render_decimal: "scan_number decimal_digit 10 0 (render_decimal n []) = Some n"
proof (induction n rule: less_induct)
  case (less n)
  show ?case
  proof (cases "n < 10")
    case True
    then show ?thesis
      by (simp add: render_decimal_unfold [of n] decimal_digit_digit_char)
  next
    case False
    then have lt: "n div 10 < n" by simp
    have d: "decimal_digit (digit_char (n mod 10)) = Some (n mod 10)"
      by (rule decimal_digit_digit_char) simp
    show ?thesis
      using False by (simp add: render_decimal_unfold [of n] scan_number_append less.IH [OF lt] d)
  qed
qed

lemma IsNum_digit_char: "d < 10 \<Longrightarrow> IsNum (digit_char d)"
  by (simp add: digit_char_def IsNum_def)

lemma render_decimal_IsNum: "list_all IsNum (render_decimal n [])"
proof (induction n rule: less_induct)
  case (less n)
  show ?case
  proof (cases "n < 10")
    case True
    then show ?thesis by (simp add: render_decimal_unfold [of n] IsNum_digit_char)
  next
    case False
    then have lt: "n div 10 < n" by simp
    show ?thesis
      using False less.IH [OF lt] by (simp add: render_decimal_unfold [of n] IsNum_digit_char)
  qed
qed

lemma render_decimal_nonempty: "render_decimal n [] \<noteq> []"
  by (simp add: render_decimal_unfold [of n])

lemma length_render_decimal: "n < 10 ^ k \<Longrightarrow> 0 < k \<Longrightarrow> length (render_decimal n []) \<le> k"
proof (induction k arbitrary: n)
  case 0
  then show ?case by simp
next
  case (Suc k)
  show ?case
  proof (cases "n < 10")
    case True
    then show ?thesis by (simp add: render_decimal_unfold [of n])
  next
    case False
    with Suc.prems have k: "0 < k" by (cases k) auto
    from Suc.prems have "n div 10 < 10 ^ k"
      by (simp add: less_mult_imp_div_less mult.commute)
    from Suc.IH [OF this k] False show ?thesis
      by (simp add: render_decimal_unfold [of n])
  qed
qed

lemma IsNum_not_NUL: "IsNum C \<Longrightarrow> C \<noteq> NUL"
  by (auto simp: IsNum_def NUL_def)

lemma IsNum_not_sign: "IsNum C \<Longrightarrow> C \<noteq> CHR ''-'' \<and> C \<noteq> CHR ''+''"
  by (auto simp: IsNum_def)

lemma content_rendered:
  assumes "n < 10 ^ 19" and "NUL \<notin> set sign" and "length sign \<le> 1"
  shows "content (String_from (sign @ render_decimal n [])) = sign @ render_decimal n []"
proof -
  have "length (render_decimal n []) \<le> 19"
    using assms(1) by (rule length_render_decimal) simp
  then have short: "length (sign @ render_decimal n []) < 2 ^ 32"
    using assms(3) by simp
  have "NUL \<notin> set (render_decimal n [])"
    using render_decimal_IsNum [of n] IsNum_not_NUL by (auto simp: list_all_iff)
  then have "NUL \<notin> set (sign @ render_decimal n [])"
    using assms(2) by simp
  then show ?thesis
    using short by (rule String_from_inv(2))
qed

lemma content_ToString:
  "content (ToString Num) =
     (if sint Num < 0 then CHR ''-'' # render_decimal (nat (- sint Num)) []
      else render_decimal (nat (sint Num)) [])"
proof (cases "sint Num < 0")
  case True
  have "nat (- sint Num) < 10 ^ 19"
    using sint_ge [of Num] by simp
  from content_rendered [OF this, of "[CHR ''-'']"] show ?thesis
    using True by (simp add: ToString_def NUL_def)
next
  case False
  have "nat (sint Num) < 10 ^ 19"
    using sint_lt [of Num] by simp
  from content_rendered [OF this, of "[]"] show ?thesis
    using False by (simp add: ToString_def)
qed

text \<open>
  Claim C7. For every \<^verbatim>\<open>I64\<close> value \<open>n\<close>, the smallest and the largest included,
  \<^verbatim>\<open>ParseInt(ToString(n))\<close> is present and carries \<open>n\<close>.
\<close>

theorem ParseInt_ToString_roundtrip: "ParseInt (ToString Num) = Some Num"
proof (cases "sint Num < 0")
  case True
  have "- word_of_nat (nat (- sint Num)) = (word_of_int (sint Num) :: I64)"
    using True by simp
  then show ?thesis
    using True
    by (simp add: ParseInt_def content_ToString render_decimal_nonempty scan_render_decimal)
next
  case False
  let ?r = "render_decimal (nat (sint Num)) []"
  have "IsNum (hd ?r)"
    using render_decimal_IsNum [of "nat (sint Num)"] render_decimal_nonempty [of "nat (sint Num)"]
    by (cases ?r) simp_all
  then have hd: "hd ?r \<noteq> CHR ''-''" "hd ?r \<noteq> CHR ''+''"
    using IsNum_not_sign by blast+
  have "word_of_nat (nat (sint Num)) = (word_of_int (sint Num) :: I64)"
    using False by simp
  then show ?thesis
    using False hd
    by (simp add: ParseInt_def content_ToString render_decimal_nonempty scan_render_decimal)
qed

lemma ParseInt_reject:
  assumes "content Text = [] \<or> \<not> list_all in_ParseInt_grammar (content Text)"
  shows "ParseInt Text = None"
proof (cases "content Text")
  case Nil
  then show ?thesis by (simp add: ParseInt_def)
next
  case (Cons B rest)
  with assms obtain C where C: "C \<in> set (B # rest)" and out: "\<not> in_ParseInt_grammar C"
    by (auto simp: list_all_iff)
  from out have digit: "decimal_digit C = None" and sign: "C \<noteq> CHR ''-''" "C \<noteq> CHR ''+''"
    by (simp_all add: in_ParseInt_grammar_def decimal_digit_def)
  have whole: "scan_number decimal_digit 10 0 (B # rest) = None"
    using C digit by (rule scan_number_reject)
  show ?thesis
  proof (cases "B = CHR ''-'' \<or> B = CHR ''+''")
    case True
    with C sign have "C \<in> set rest" by auto
    then have "scan_number decimal_digit 10 0 rest = None"
      using digit by (rule scan_number_reject)
    with True show ?thesis
      by (auto simp: ParseInt_def Cons)
  next
    case False
    with whole show ?thesis
      by (simp add: ParseInt_def Cons)
  qed
qed

lemma ParseBits_reject:
  assumes "content Text = [] \<or> \<not> list_all in_ParseBits_grammar (content Text)"
  shows "ParseBits Text = None"
proof (cases "content Text = []")
  case True
  then show ?thesis by (simp add: ParseBits_def)
next
  case False
  with assms obtain C where C: "C \<in> set (content Text)" and out: "\<not> in_ParseBits_grammar C"
    by (auto simp: list_all_iff)
  from out have "bit_digit C = None"
    by (simp add: in_ParseBits_grammar_def bit_digit_def)
  with C have "scan_number bit_digit 2 0 (content Text) = None"
    by (rule scan_number_reject)
  then show ?thesis by (simp add: ParseBits_def Let_def)
qed

lemma ParseHex_reject:
  assumes "content Text = [] \<or> \<not> list_all in_ParseHex_grammar (content Text)"
  shows "ParseHex Text = None"
proof (cases "content Text = []")
  case True
  then show ?thesis by (simp add: ParseHex_def)
next
  case False
  with assms obtain C where C: "C \<in> set (content Text)" and out: "\<not> in_ParseHex_grammar C"
    by (auto simp: list_all_iff)
  from out have "hex_digit C = None"
    by (simp add: in_ParseHex_grammar_def hex_digit_def)
  with C have "scan_number hex_digit 16 0 (content Text) = None"
    by (rule scan_number_reject)
  then show ?thesis by (simp add: ParseHex_def Let_def)
qed

lemma float_digits_reject:
  assumes "C \<in> set bytes" and "\<not> IsNum C" and "C \<noteq> CHR ''.''"
  shows "float_digits bytes = None"
proof -
  let ?whole = "takeWhile IsNum bytes" and ?after = "dropWhile IsNum bytes"
  have "C \<notin> set ?whole"
    using assms(2) by (auto dest: set_takeWhileD)
  moreover have "set bytes = set ?whole \<union> set ?after"
    by (metis set_append takeWhile_dropWhile_id)
  ultimately have after: "C \<in> set ?after"
    using assms(1) by auto
  have ne: "?after \<noteq> []"
    using assms(1) assms(2) by auto
  have digit: "decimal_digit C = None"
    using assms(2) by (simp add: decimal_digit_def)
  show ?thesis
  proof (cases "hd ?after = CHR ''.''")
    case True
    with after ne assms(3) have "C \<in> set (tl ?after)"
      by (cases ?after) auto
    then have "C \<in> set (?whole @ tl ?after)" by simp
    then have "scan_number decimal_digit 10 0 (?whole @ tl ?after) = None"
      using digit by (rule scan_number_reject)
    then show ?thesis
      using ne by (auto simp: float_digits_def Let_def)
  next
    case False
    then show ?thesis
      using ne by (auto simp: float_digits_def Let_def)
  qed
qed

lemma ParseFloat_reject:
  assumes "content Text = [] \<or> \<not> list_all in_ParseFloat_grammar (content Text)"
  shows "ParseFloat Text = None"
proof (cases "content Text")
  case Nil
  then show ?thesis by (simp add: ParseFloat_def)
next
  case (Cons B rest)
  with assms obtain C where C: "C \<in> set (B # rest)" and out: "\<not> in_ParseFloat_grammar C"
    by (auto simp: list_all_iff)
  from out have digit: "\<not> IsNum C" and point: "C \<noteq> CHR ''.''"
    and sign: "C \<noteq> CHR ''-''" "C \<noteq> CHR ''+''"
    by (simp_all add: in_ParseFloat_grammar_def)
  have whole: "float_digits (B # rest) = None"
    using C digit point by (rule float_digits_reject)
  show ?thesis
  proof (cases "B = CHR ''-'' \<or> B = CHR ''+''")
    case True
    with C sign have "C \<in> set rest" by auto
    then have "float_digits rest = None"
      using digit point by (rule float_digits_reject)
    with True show ?thesis
      by (auto simp: ParseFloat_def Cons)
  next
    case False
    with whole show ?thesis
      by (simp add: ParseFloat_def Cons)
  qed
qed

lemma ParseBool_reject:
  assumes "content Text = [] \<or> \<not> list_all in_ParseBool_grammar (content Text)"
  shows "ParseBool Text = None"
proof -
  have "list_all in_ParseBool_grammar ''true''" and "list_all in_ParseBool_grammar ''false''"
    by (simp_all add: in_ParseBool_grammar_def)
  with assms have "content Text \<noteq> ''true''" and "content Text \<noteq> ''false''"
    by auto
  then show ?thesis by (simp add: ParseBool_def)
qed

lemma Parse_malformed_examples:
  "ParseInt (String_cstr ''12a'') = None \<and> ParseBits (String_cstr ''12a'') = None
   \<and> ParseHex (String_cstr ''12a'') = None
   \<and> ParseFloat (String_cstr ''12a'') = None \<and> ParseBool (String_cstr ''12a'') = None
   \<and> ParseInt (String_cstr []) = None \<and> ParseBits (String_cstr []) = None
   \<and> ParseHex (String_cstr []) = None \<and> ParseFloat (String_cstr []) = None
   \<and> ParseBool (String_cstr []) = None
   \<and> ParseInt (String_cstr ''--3'') = None \<and> ParseBits (String_cstr ''--3'') = None
   \<and> ParseHex (String_cstr ''--3'') = None \<and> ParseFloat (String_cstr ''--3'') = None
   \<and> ParseBool (String_cstr ''--3'') = None"
  by code_simp

text \<open>
  Claim C8. Each of the five parse functions returns an absent result when the input
  is empty and when it contains, at any position, a byte outside the grammar of that
  function. In particular \<^verbatim>\<open>12a\<close>, the empty input and \<^verbatim>\<open>--3\<close> are absent for all
  five.
\<close>

theorem Parse_absent_outside_grammar:
  "(content Text = [] \<or> \<not> list_all in_ParseInt_grammar (content Text)
      \<longrightarrow> ParseInt Text = None)
   \<and> (content Text = [] \<or> \<not> list_all in_ParseBits_grammar (content Text)
      \<longrightarrow> ParseBits Text = None)
   \<and> (content Text = [] \<or> \<not> list_all in_ParseHex_grammar (content Text)
      \<longrightarrow> ParseHex Text = None)
   \<and> (content Text = [] \<or> \<not> list_all in_ParseFloat_grammar (content Text)
      \<longrightarrow> ParseFloat Text = None)
   \<and> (content Text = [] \<or> \<not> list_all in_ParseBool_grammar (content Text)
      \<longrightarrow> ParseBool Text = None)
   \<and> ParseInt (String_cstr ''12a'') = None \<and> ParseBits (String_cstr ''12a'') = None
   \<and> ParseHex (String_cstr ''12a'') = None
   \<and> ParseFloat (String_cstr ''12a'') = None \<and> ParseBool (String_cstr ''12a'') = None
   \<and> ParseInt (String_cstr []) = None \<and> ParseBits (String_cstr []) = None
   \<and> ParseHex (String_cstr []) = None \<and> ParseFloat (String_cstr []) = None
   \<and> ParseBool (String_cstr []) = None
   \<and> ParseInt (String_cstr ''--3'') = None \<and> ParseBits (String_cstr ''--3'') = None
   \<and> ParseHex (String_cstr ''--3'') = None \<and> ParseFloat (String_cstr ''--3'') = None
   \<and> ParseBool (String_cstr ''--3'') = None"
  using ParseInt_reject [of Text] ParseBits_reject [of Text] ParseHex_reject [of Text]
    ParseFloat_reject [of Text] ParseBool_reject [of Text] Parse_malformed_examples
  by blast

theorem Parse_absent_outside_grammar_witness:
  "ParseInt (String_cstr ''12x'') = None \<and> ParseBits (String_cstr ''12x'') = None
   \<and> ParseHex (String_cstr ''12x'') = None \<and> ParseFloat (String_cstr ''12x'') = None
   \<and> ParseBool (String_cstr ''12x'') = None"
proof -
  have bytes: "content (String_cstr ''12x'') = ''12x''"
    by code_simp
  have out: "\<not> list_all in_ParseInt_grammar ''12x''" "\<not> list_all in_ParseBits_grammar ''12x''"
    "\<not> list_all in_ParseHex_grammar ''12x''" "\<not> list_all in_ParseFloat_grammar ''12x''"
    "\<not> list_all in_ParseBool_grammar ''12x''"
    by (simp_all add: in_ParseInt_grammar_def in_ParseBits_grammar_def in_ParseHex_grammar_def
        in_ParseFloat_grammar_def in_ParseBool_grammar_def IsNum_def)
  from Parse_absent_outside_grammar [of "String_cstr ''12x''"] out show ?thesis
    unfolding bytes by blast
qed

end
